theory Spec2Isabelle
  imports Main
begin

section \<open>The authentication gate generator\<close>

text \<open>
  A shallow embedding of \<^verbatim>\<open>inspircd-auth-gate-generator.py\<close>. The script parses its
  arguments, fetches a plaintext list over HTTP, renders two \<^verbatim>\<open><connect>\<close> blocks and
  writes them to a file or to standard output.

  Python strings are modelled as \<^typ>\<open>string\<close>, read as the UTF-8 bytes of the text: the
  script only concatenates strings, and UTF-8 encoding distributes over concatenation, so
  the bytes written to a file opened with \<^verbatim>\<open>encoding="utf8"\<close> are the modelled string
  itself.
\<close>

subsection \<open>Characters and joining\<close>

abbreviation LF :: char where "LF \<equiv> CHR 0x0A"
abbreviation CR :: char where "CR \<equiv> CHR 0x0D"

text \<open>Python's \<^verbatim>\<open>sep.join(xs)\<close>, used to state what the loop builds.\<close>

fun join :: "string \<Rightarrow> string list \<Rightarrow> string" where
  "join sep [] = []"
| "join sep [x] = x"
| "join sep (x # y # ys) = x @ sep @ join sep (y # ys)"

subsection \<open>Arguments, responses and the outside world\<close>

text \<open>
  The namespace returned by \<^verbatim>\<open>parser.parse_args()\<close> (lines 27 to 57), and its
  defaults. The field \<open>output_path\<close> is \<^verbatim>\<open>args.output\<close>, whose own name is reserved in
  Isabelle.
\<close>

record args =
  message :: string
  output_path :: string
  parent :: string
  url :: string

definition default_args :: args where
  "default_args =
     \<lparr> message = ''You need to identify via SASL to use this server.'',
       output_path = '''',
       parent = ''main'',
       url = ''https://raw.githubusercontent.com/X4BNet/lists_vpn/main/output/vpn/ipv4.txt'' \<rparr>"

text \<open>
  The part of \<^verbatim>\<open>requests.Response\<close> the script reads: \<^verbatim>\<open>res.status_code\<close> and
  \<^verbatim>\<open>res.text\<close> (the decoded body, the field \<open>res_text\<close>).
\<close>

record response =
  status_code :: int
  res_text :: string

text \<open>
  The two exceptions that can escape \<^verbatim>\<open>main\<close>: \<^verbatim>\<open>requests.get\<close> raising (timeout,
  DNS failure, refused connection) and \<^verbatim>\<open>open\<close> raising.
\<close>

datatype error = RequestException | OSError

text \<open>
  The world the script acts on: what a GET of each URL yields, which paths can be opened
  for writing, the contents of the files, and the two output streams.
\<close>

record world =
  network :: "string \<Rightarrow> error + response"
  writable :: "string \<Rightarrow> bool"
  files :: "string \<rightharpoonup> string"
  stdout :: string
  stderr :: string

text \<open>\<^verbatim>\<open>print(s, file=stderr)\<close>: the text and a newline.\<close>

definition print_stderr :: "string \<Rightarrow> world \<Rightarrow> world" where
  "print_stderr s w = w\<lparr>stderr := stderr w @ s @ [LF]\<rparr>"

text \<open>The object bound to \<^verbatim>\<open>f\<close> by the \<^verbatim>\<open>with\<close> statement of line 113.\<close>

datatype handle = File string | Stdout

text \<open>\<^verbatim>\<open>open(path, "w", encoding="utf8")\<close>: raises, or creates or truncates the file.\<close>

definition open_w :: "string \<Rightarrow> world \<Rightarrow> error + world" where
  "open_w path w =
     (if writable w path then Inr (w\<lparr>files := (files w)(path \<mapsto> [])\<rparr>) else Inl OSError)"

text \<open>\<^verbatim>\<open>f.write(s)\<close>: appends to the open file or to standard output.\<close>

fun f_write :: "handle \<Rightarrow> string \<Rightarrow> world \<Rightarrow> world" where
  "f_write (File path) s w =
     w\<lparr>files := (files w)(path \<mapsto> (case files w path of None \<Rightarrow> s | Some c \<Rightarrow> c @ s))\<rparr>"
| "f_write Stdout s w = w\<lparr>stdout := stdout w @ s\<rparr>"

subsection \<open>Splitting the body into lines\<close>

text \<open>
  Modelled from the spec: \<^verbatim>\<open>Response.iter_lines\<close> belongs to the HTTP library, which is
  not part of the repository. The spec's operation, step 2, says the body is split "into a
  sequence of lines (text decoding applied, line-ending characters stripped)". The model
  splits at LF, CR and CR LF, yields an empty string for an empty line and, like the
  library's \<^verbatim>\<open>splitlines\<close>, yields no final empty string when the body ends in a line
  ending. The lines are those of the decoded body, as with a response that declares its
  encoding.
\<close>

fun splitlines_from :: "string \<Rightarrow> string \<Rightarrow> string list" where
  "splitlines_from cur [] = (if cur = [] then [] else [cur])"
| "splitlines_from cur [c] = (if c = LF \<or> c = CR then [cur] else [cur @ [c]])"
| "splitlines_from cur (c # d # cs) =
     (if c = LF then cur # splitlines_from [] (d # cs)
      else if c = CR then
        (if d = LF then cur # splitlines_from [] cs else cur # splitlines_from [] (d # cs))
      else splitlines_from (cur @ [c]) (d # cs))"

definition splitlines :: "string \<Rightarrow> string list" where
  "splitlines s = splitlines_from [] s"

definition iter_lines :: "response \<Rightarrow> string list" where
  "iter_lines res = splitlines (res_text res)"

subsection \<open>Rendering\<close>

text \<open>Line 75: the class name, from the value \<^verbatim>\<open>uuid.uuid4()\<close> returned in this run.\<close>

definition class_name :: "string \<Rightarrow> string" where
  "class_name uuid4 = ''auth-gate-'' @ uuid4"

text \<open>
  Lines 82 to 93: the loop over \<^verbatim>\<open>enumerate(ip_addresses)\<close>. \<open>n\<close> is
  \<^verbatim>\<open>len(ip_addresses)\<close>, \<open>i\<close> the running index, and the pair holds \<^verbatim>\<open>allow\<close> and
  \<^verbatim>\<open>deny\<close>.
\<close>

fun build_loop :: "int \<Rightarrow> int \<Rightarrow> string list \<Rightarrow> string \<times> string \<Rightarrow> string \<times> string" where
  "build_loop n i [] (allow, deny) = (allow, deny)"
| "build_loop n i (ip # rest) (allow, deny) =
     (if i < n - 1 then
        build_loop n (i + 1) rest
          (allow @ ''    allow=\"'' @ ip @ ''\"'' @ [LF],
           deny @ ''    deny=\"'' @ ip @ ''\"'' @ [LF])
      else
        build_loop n (i + 1) rest
          (allow @ ''    allow=\"'' @ ip @ ''\"'',
           deny @ ''    deny=\"'' @ ip @ ''\"''))"

definition build_entries :: "string list \<Rightarrow> string \<times> string" where
  "build_entries ip_addresses =
     build_loop (int (length ip_addresses)) 0 ip_addresses ('''', '''')"

text \<open>Lines 107 to 110: the two f-strings.\<close>

definition allow_block :: "args \<Rightarrow> string \<Rightarrow> string \<Rightarrow> string" where
  "allow_block a cn allow =
     ''<connect name=\"'' @ cn @ ''\"'' @ [LF] @ allow @ [LF] @
     ''    registered=\"true\"'' @ [LF] @
     ''    requireaccount=\"yes\"'' @ [LF] @
     ''    parent=\"'' @ parent a @ ''\">''"

definition deny_block :: "args \<Rightarrow> string \<Rightarrow> string" where
  "deny_block a deny =
     ''<connect'' @ [LF] @ deny @ [LF] @
     ''    registered=\"true\"'' @ [LF] @
     ''    reason=\"'' @ message a @ ''\">''"

text \<open>
  The two blocks as \<^verbatim>\<open>main\<close> computes them from the arguments, the list and the
  identifier.
\<close>

definition render :: "args \<Rightarrow> string \<Rightarrow> string list \<Rightarrow> string \<times> string" where
  "render a uuid4 ip_addresses =
     (case build_entries ip_addresses of
        (allow, deny) \<Rightarrow> (allow_block a (class_name uuid4) allow, deny_block a deny))"

subsection \<open>Emitting\<close>

definition header_line :: string where
  "header_line =
     ''# Authentication gate configuration auto-generated by inspircd-auth-gate-generator.py''
     @ [LF]"

text \<open>Lines 114 to 120: the five writes of the \<^verbatim>\<open>with\<close> body.\<close>

definition emit :: "handle \<Rightarrow> string \<Rightarrow> string \<Rightarrow> world \<Rightarrow> world" where
  "emit f ab db w =
     f_write f [LF] (f_write f db (f_write f [LF] (f_write f ab (f_write f header_line w))))"

subsection \<open>The program\<close>

text \<open>
  \<^verbatim>\<open>main\<close> (lines 60 to 120). The result is \<open>Inr\<close> of the final world when the run
  completes, and \<open>Inl\<close> of the exception and the world at the raise when it aborts.
\<close>

definition main :: "args \<Rightarrow> string \<Rightarrow> world \<Rightarrow> (error \<times> world) + world" where
  "main a uuid4 w =
     (case network w (url a) of
        Inl e \<Rightarrow> Inl (e, w)
      | Inr res \<Rightarrow>
          let w1 = (if status_code res \<noteq> 200
                    then print_stderr (res_text res)
                           (print_stderr ''URL request did not return OK status'' w)
                    else w);
              ip_addresses = iter_lines res;
              (ab, db) = render a uuid4 ip_addresses;
              use_file = (length (output_path a) \<noteq> 0)
          in if use_file then
               (case open_w (output_path a) w1 of
                  Inl e \<Rightarrow> Inl (e, w1)
                | Inr w2 \<Rightarrow> Inr (emit (File (output_path a)) ab db w2))
             else Inr (emit Stdout ab db w1))"

subsection \<open>Vocabulary for the properties\<close>

text \<open>A string that holds no line-ending character, so that it is a single line.\<close>

definition no_eol :: "string \<Rightarrow> bool" where
  "no_eol s = (LF \<notin> set s \<and> CR \<notin> set s)"

text \<open>
  An entry line of a block as the output format shows it: four spaces, the keyword
  (\<^verbatim>\<open>allow\<close> or \<^verbatim>\<open>deny\<close>), and the entry in double quotes.
\<close>

definition entry_line :: "string \<Rightarrow> string \<Rightarrow> string" where
  "entry_line kw ip = ''    '' @ kw @ ''=\"'' @ ip @ ''\"''"

text \<open>The world after lines 66 to 68, the report of a status other than 200.\<close>

definition report :: "response \<Rightarrow> world \<Rightarrow> world" where
  "report res w =
     (if status_code res \<noteq> 200
      then print_stderr (res_text res)
             (print_stderr ''URL request did not return OK status'' w)
      else w)"

text \<open>
  Reading a block back: the entry a line quotes when it has the form of an entry line for
  the keyword, and the entries of the lines of a block, in order.
\<close>

definition entry_of :: "string \<Rightarrow> string \<Rightarrow> string option" where
  "entry_of kw line =
     (let p = ''    '' @ kw @ ''=\"''
      in if length p < length line \<and> take (length p) line = p \<and> last line = CHR 0x22
         then Some (butlast (drop (length p) line)) else None)"

definition entries_of :: "string \<Rightarrow> string \<Rightarrow> string list" where
  "entries_of kw block = List.map_filter (entry_of kw) (splitlines block)"

text \<open>The non-empty lines of a body.\<close>

definition non_empty_lines :: "string \<Rightarrow> string list" where
  "non_empty_lines body = filter (\<lambda>l. l \<noteq> []) (splitlines body)"

subsection \<open>Example inputs\<close>

definition example_response :: response where
  "example_response =
     \<lparr>status_code = 200, res_text = ''1.2.3.4/32\<newline>5.6.7.8/24\<newline>''\<rparr>"

definition blank_line_response :: response where
  "blank_line_response =
     \<lparr>status_code = 200, res_text = ''1.2.3.4/32\<newline>\<newline>5.6.7.8/24\<newline>''\<rparr>"

definition error_response :: response where
  "error_response = \<lparr>status_code = 404, res_text = ''404: Not Found''\<rparr>"

text \<open>
  A world in which every GET yields \<open>res\<close>, only \<^verbatim>\<open>gate.conf\<close> can be opened for
  writing and already has content, and standard output already holds a character.
\<close>

definition example_world :: "response \<Rightarrow> world" where
  "example_world res =
     \<lparr>network = (\<lambda>_. Inr res), writable = (\<lambda>p. p = ''gate.conf''),
      files = [''gate.conf'' \<mapsto> ''old content''], stdout = ''>'', stderr = []\<rparr>"

section \<open>Properties\<close>

subsection \<open>The loop builds two newline-joined strings\<close>

lemma build_loop_join:
  "n = i + int (length rest) \<Longrightarrow>
   build_loop n i rest (allow, deny) =
     (allow @ join [LF] (map (entry_line ''allow'') rest),
      deny @ join [LF] (map (entry_line ''deny'') rest))"
proof (induction rest arbitrary: i allow deny)
  case Nil
  then show ?case by simp
next
  case (Cons ip rest)
  show ?case
  proof (cases rest)
    case Nil
    with Cons.prems show ?thesis by (simp add: entry_line_def)
  next
    case (Cons ip' rest')
    have "n = (i + 1) + int (length rest)" using Cons.prems by simp
    from Cons.IH [OF this] Cons.prems Cons show ?thesis
      by (simp add: entry_line_def)
  qed
qed

lemma build_entries_join:
  "build_entries ips =
     (join [LF] (map (entry_line ''allow'') ips), join [LF] (map (entry_line ''deny'') ips))"
  unfolding build_entries_def
  using build_loop_join [of "int (length ips)" 0 ips "[]" "[]"] by simp

lemma render_join:
  "render a u ips =
     (allow_block a (class_name u) (join [LF] (map (entry_line ''allow'') ips)),
      deny_block a (join [LF] (map (entry_line ''deny'') ips)))"
  by (simp add: render_def build_entries_join)

subsection \<open>The shape of the two blocks\<close>

text \<open>
  C1. For a non-empty list the allow-block is the header line naming the class
  \<^verbatim>\<open>auth-gate-<id>\<close>, then the lines \<^verbatim>\<open>    allow="<entry>"\<close>, one per entry, joined by
  newlines with none after the last, then the three footer lines; for the list
  \<^verbatim>\<open>["1.2.3.4/32", "5.6.7.8/24"]\<close> and parent \<^verbatim>\<open>main\<close> it is the text the spec gives.
\<close>

theorem allow_block_template:
  "(ips \<noteq> [] \<longrightarrow>
      fst (render a u ips) =
        ''<connect name=\"auth-gate-'' @ u @ ''\"'' @ [LF] @
        join [LF] (map (entry_line ''allow'') ips) @ [LF] @
        ''    registered=\"true\"'' @ [LF] @
        ''    requireaccount=\"yes\"'' @ [LF] @
        ''    parent=\"'' @ parent a @ ''\">'') \<and>
   fst (render (a\<lparr>parent := ''main''\<rparr>) u [''1.2.3.4/32'', ''5.6.7.8/24'']) =
     ''<connect name=\"auth-gate-'' @ u @
     ''\"\<newline>    allow=\"1.2.3.4/32\"\<newline>    allow=\"5.6.7.8/24\"\<newline>    registered=\"true\"\<newline>    requireaccount=\"yes\"\<newline>    parent=\"main\">''"
  by (simp add: render_join allow_block_def class_name_def entry_line_def)

theorem allow_block_template_witness:
  "[''10.0.0.0/8''] \<noteq> [] \<and>
   fst (render default_args ''73494747-e19e-4cdf-bc3b-c0f5b94af2e2'' [''10.0.0.0/8'']) =
     ''<connect name=\"auth-gate-73494747-e19e-4cdf-bc3b-c0f5b94af2e2\"\<newline>    allow=\"10.0.0.0/8\"\<newline>    registered=\"true\"\<newline>    requireaccount=\"yes\"\<newline>    parent=\"main\">''"
  using allow_block_template
    [of "[''10.0.0.0/8'']" default_args "''73494747-e19e-4cdf-bc3b-c0f5b94af2e2''"]
  by (simp add: entry_line_def default_args_def)

text \<open>
  C2. For a non-empty list the deny-block is the bare \<^verbatim>\<open><connect\<close> line, then the lines
  \<^verbatim>\<open>    deny="<entry>"\<close>, one per entry, joined by newlines with none after the last,
  then \<^verbatim>\<open>    registered="true"\<close> and \<^verbatim>\<open>    reason="<message>">\<close> with the message
  inserted as it is, quote characters included; for the list
  \<^verbatim>\<open>["1.2.3.4/32", "5.6.7.8/24"]\<close> and message \<^verbatim>\<open>Identify please\<close> it is the text the
  spec gives.
\<close>

theorem deny_block_template:
  "(ips \<noteq> [] \<longrightarrow>
      snd (render a u ips) =
        ''<connect'' @ [LF] @
        join [LF] (map (entry_line ''deny'') ips) @ [LF] @
        ''    registered=\"true\"'' @ [LF] @
        ''    reason=\"'' @ message a @ ''\">'') \<and>
   snd (render (a\<lparr>message := ''Identify please''\<rparr>) u [''1.2.3.4/32'', ''5.6.7.8/24'']) =
     ''<connect\<newline>    deny=\"1.2.3.4/32\"\<newline>    deny=\"5.6.7.8/24\"\<newline>    registered=\"true\"\<newline>    reason=\"Identify please\">''"
  by (simp add: render_join deny_block_def entry_line_def)

theorem deny_block_template_witness:
  "[''10.0.0.0/8''] \<noteq> [] \<and>
   snd (render (default_args\<lparr>message := ''say \"hi\"''\<rparr>) ''u'' [''10.0.0.0/8'']) =
     ''<connect\<newline>    deny=\"10.0.0.0/8\"\<newline>    registered=\"true\"\<newline>    reason=\"say \"hi\"\">''"
  using deny_block_template
    [of "[''10.0.0.0/8'']" "default_args\<lparr>message := ''say \"hi\"''\<rparr>" "''u''"]
  by (simp add: entry_line_def default_args_def)

text \<open>
  C4. With an empty list each block is its header line, an empty line, and its footer
  lines: the two newlines of the f-string around the empty \<^verbatim>\<open>allow\<close> (or \<^verbatim>\<open>deny\<close>)
  meet.
\<close>

theorem render_empty_list:
  "render a u [] =
     (''<connect name=\"auth-gate-'' @ u @
      ''\"\<newline>\<newline>    registered=\"true\"\<newline>    requireaccount=\"yes\"\<newline>    parent=\"'' @
      parent a @ ''\">'',
      ''<connect\<newline>\<newline>    registered=\"true\"\<newline>    reason=\"'' @ message a @ ''\">'')"
  by (simp add: render_join allow_block_def deny_block_def class_name_def)

subsection \<open>What a run does to the world\<close>

lemma emit_Stdout:
  "emit Stdout ab db w = w\<lparr>stdout := stdout w @ header_line @ ab @ [LF] @ db @ [LF]\<rparr>"
  by (simp add: emit_def)

lemma emit_File:
  "emit (File p) ab db w =
     w\<lparr>files := (files w)(p \<mapsto>
        (case files w p of None \<Rightarrow> [] | Some c \<Rightarrow> c) @ header_line @ ab @ [LF] @ db @ [LF])\<rparr>"
  by (cases "files w p") (simp_all add: emit_def)

lemma emit_stderr [simp]: "stderr (emit f ab db w) = stderr w"
  by (cases f) (simp_all add: emit_def)

lemma iter_lines_example:
  "iter_lines example_response = [''1.2.3.4/32'', ''5.6.7.8/24'']"
  by (simp add: iter_lines_def splitlines_def example_response_def)

lemma iter_lines_blank_line:
  "iter_lines blank_line_response = [''1.2.3.4/32'', [], ''5.6.7.8/24'']"
  by (simp add: iter_lines_def splitlines_def blank_line_response_def)

lemma iter_lines_error: "iter_lines error_response = [''404: Not Found'']"
  by (simp add: iter_lines_def splitlines_def error_response_def)

lemma report_fields [simp]:
  "stdout (report res w) = stdout w"
  "files (report res w) = files w"
  "writable (report res w) = writable w"
  "network (report res w) = network w"
  by (simp_all add: report_def print_stderr_def)

lemma report_stderr:
  "stderr (report res w) =
     (if status_code res \<noteq> 200
      then stderr w @ ''URL request did not return OK status'' @ [LF] @ res_text res @ [LF]
      else stderr w)"
  by (simp add: report_def print_stderr_def)

lemma main_to_stdout:
  assumes "network w (url a) = Inr res" and "output_path a = []"
  shows "main a u w =
           Inr (emit Stdout (fst (render a u (iter_lines res)))
                  (snd (render a u (iter_lines res))) (report res w))"
  using assms by (simp add: main_def report_def Let_def split: prod.splits)

lemma main_to_file:
  assumes "network w (url a) = Inr res" and "output_path a \<noteq> []"
    and "writable w (output_path a)"
  shows "main a u w =
           Inr (emit (File (output_path a)) (fst (render a u (iter_lines res)))
                  (snd (render a u (iter_lines res)))
                  ((report res w)\<lparr>files := (files w)(output_path a \<mapsto> [])\<rparr>))"
  using assms
  by (simp add: main_def report_def Let_def open_w_def print_stderr_def split: prod.splits)

lemma main_open_fails:
  assumes "network w (url a) = Inr res" and "output_path a \<noteq> []"
    and "\<not> writable w (output_path a)"
  shows "main a u w = Inl (OSError, report res w)"
  using assms
  by (simp add: main_def report_def Let_def open_w_def print_stderr_def split: prod.splits)

lemma main_get_fails:
  "network w (url a) = Inl e \<Longrightarrow> main a u w = Inl (e, w)"
  by (simp add: main_def)

text \<open>
  C5. A run whose request returns and whose destination can be opened completes, and the
  text it sends to its destination (appended to standard output, or the whole content of
  the output file) is the comment line, the allow-block, a newline, the deny-block and a
  newline, in that order and with nothing else.
\<close>

theorem emitted_text:
  assumes "network w (url a) = Inr res"
    and "output_path a = [] \<or> writable w (output_path a)"
  shows "\<exists>w'. main a u w = Inr w' \<and>
           (let t = ''# Authentication gate configuration auto-generated by inspircd-auth-gate-generator.py\<newline>''
                    @ fst (render a u (iter_lines res)) @ [LF]
                    @ snd (render a u (iter_lines res)) @ [LF]
            in if output_path a = [] then stdout w' = stdout w @ t
               else files w' (output_path a) = Some t)"
proof (cases "output_path a = []")
  case True
  show ?thesis
    using True by (simp add: main_to_stdout [OF assms(1) True] emit_Stdout header_line_def)
next
  case False
  with assms(2) have wr: "writable w (output_path a)" by simp
  show ?thesis
    using False by (simp add: main_to_file [OF assms(1) False wr] emit_File header_line_def)
qed

theorem emitted_text_witness:
  "network (example_world example_response) (url default_args) = Inr example_response \<and>
   (output_path default_args = [] \<or>
    writable (example_world example_response) (output_path default_args)) \<and>
   (\<exists>w'. main default_args ''73494747'' (example_world example_response) = Inr w' \<and>
      stdout w' =
        ''># Authentication gate configuration auto-generated by inspircd-auth-gate-generator.py\<newline><connect name=\"auth-gate-73494747\"\<newline>    allow=\"1.2.3.4/32\"\<newline>    allow=\"5.6.7.8/24\"\<newline>    registered=\"true\"\<newline>    requireaccount=\"yes\"\<newline>    parent=\"main\">\<newline><connect\<newline>    deny=\"1.2.3.4/32\"\<newline>    deny=\"5.6.7.8/24\"\<newline>    registered=\"true\"\<newline>    reason=\"You need to identify via SASL to use this server.\">\<newline>'')"
  using emitted_text
    [of "example_world example_response" default_args example_response "''73494747''"]
  by (simp add: iter_lines_example render_join allow_block_def deny_block_def class_name_def
      entry_line_def)
     (simp add: example_world_def default_args_def)

text \<open>
  C6. With a non-empty output path that can be opened, the run completes, the file at
  that path holds exactly the rendered text whatever it held before, standard output is
  as it was and no other file changes; with an empty output path (the default when the
  option is absent) the run completes, the same text is appended to standard output and
  no file is created or changed.
\<close>

theorem output_destination:
  assumes "network w (url a) = Inr res"
  shows "(output_path a \<noteq> [] \<and> writable w (output_path a) \<longrightarrow>
            (\<exists>w'. main a u w = Inr w' \<and>
               files w' (output_path a) =
                 Some (header_line @ fst (render a u (iter_lines res)) @ [LF] @
                       snd (render a u (iter_lines res)) @ [LF]) \<and>
               stdout w' = stdout w \<and>
               (\<forall>p. p \<noteq> output_path a \<longrightarrow> files w' p = files w p))) \<and>
         (output_path a = [] \<longrightarrow>
            (\<exists>w'. main a u w = Inr w' \<and>
               stdout w' =
                 stdout w @ header_line @ fst (render a u (iter_lines res)) @ [LF] @
                 snd (render a u (iter_lines res)) @ [LF] \<and>
               files w' = files w))"
proof (intro conjI impI)
  assume h: "output_path a \<noteq> [] \<and> writable w (output_path a)"
  then show "\<exists>w'. main a u w = Inr w' \<and>
               files w' (output_path a) =
                 Some (header_line @ fst (render a u (iter_lines res)) @ [LF] @
                       snd (render a u (iter_lines res)) @ [LF]) \<and>
               stdout w' = stdout w \<and>
               (\<forall>p. p \<noteq> output_path a \<longrightarrow> files w' p = files w p)"
    by (simp add: main_to_file [OF assms] emit_File)
next
  assume h: "output_path a = []"
  then show "\<exists>w'. main a u w = Inr w' \<and>
               stdout w' =
                 stdout w @ header_line @ fst (render a u (iter_lines res)) @ [LF] @
                 snd (render a u (iter_lines res)) @ [LF] \<and>
               files w' = files w"
    by (simp add: main_to_stdout [OF assms] emit_Stdout)
qed

theorem output_destination_witness:
  "network (example_world example_response) (url (default_args\<lparr>output_path := ''gate.conf''\<rparr>))
     = Inr example_response \<and>
   output_path (default_args\<lparr>output_path := ''gate.conf''\<rparr>) \<noteq> [] \<and>
   writable (example_world example_response)
     (output_path (default_args\<lparr>output_path := ''gate.conf''\<rparr>)) \<and>
   (\<exists>w'. main (default_args\<lparr>output_path := ''gate.conf''\<rparr>) ''u''
            (example_world example_response) = Inr w' \<and>
      files w' ''gate.conf'' =
        Some ''# Authentication gate configuration auto-generated by inspircd-auth-gate-generator.py\<newline><connect name=\"auth-gate-u\"\<newline>    allow=\"1.2.3.4/32\"\<newline>    allow=\"5.6.7.8/24\"\<newline>    registered=\"true\"\<newline>    requireaccount=\"yes\"\<newline>    parent=\"main\">\<newline><connect\<newline>    deny=\"1.2.3.4/32\"\<newline>    deny=\"5.6.7.8/24\"\<newline>    registered=\"true\"\<newline>    reason=\"You need to identify via SASL to use this server.\">\<newline>'' \<and>
      stdout w' = ''>'') \<and>
   output_path default_args = [] \<and>
   (\<exists>w'. main default_args ''u'' (example_world example_response) = Inr w' \<and>
      files w' ''gate.conf'' = Some ''old content'' \<and> files w' ''other.conf'' = None)"
  using output_destination
    [of "example_world example_response" "default_args\<lparr>output_path := ''gate.conf''\<rparr>"
      example_response "''u''"]
    output_destination [of "example_world example_response" default_args example_response "''u''"]
  by (simp add: iter_lines_example render_join allow_block_def deny_block_def class_name_def
      entry_line_def header_line_def)
     (auto simp add: example_world_def default_args_def)

text \<open>
  C7. When the response has a status other than 200 (and the destination can be opened),
  the run completes: it appends to the error stream the line saying that the request did
  not return an OK status and then the response body, and it renders and emits the text
  from the lines of that same body.
\<close>

theorem non_ok_status_continues:
  assumes "network w (url a) = Inr res" and "status_code res \<noteq> 200"
    and "output_path a = [] \<or> writable w (output_path a)"
  shows "\<exists>w'. main a u w = Inr w' \<and>
           stderr w' =
             stderr w @ ''URL request did not return OK status\<newline>'' @ res_text res @ [LF] \<and>
           (let t = header_line @ fst (render a u (iter_lines res)) @ [LF] @
                    snd (render a u (iter_lines res)) @ [LF]
            in if output_path a = [] then stdout w' = stdout w @ t
               else files w' (output_path a) = Some t)"
proof (cases "output_path a = []")
  case True
  show ?thesis
    using True assms(2)
    by (simp add: main_to_stdout [OF assms(1) True] emit_Stdout report_stderr)
next
  case False
  with assms(3) have wr: "writable w (output_path a)" by simp
  show ?thesis
    using False assms(2)
    by (simp add: main_to_file [OF assms(1) False wr] emit_File report_stderr)
qed

theorem non_ok_status_continues_witness:
  "network (example_world error_response) (url default_args) = Inr error_response \<and>
   status_code error_response \<noteq> 200 \<and>
   (output_path default_args = [] \<or>
    writable (example_world error_response) (output_path default_args)) \<and>
   (\<exists>w'. main default_args ''u'' (example_world error_response) = Inr w' \<and>
      stderr w' = ''URL request did not return OK status\<newline>404: Not Found\<newline>'' \<and>
      stdout w' =
        ''># Authentication gate configuration auto-generated by inspircd-auth-gate-generator.py\<newline><connect name=\"auth-gate-u\"\<newline>    allow=\"404: Not Found\"\<newline>    registered=\"true\"\<newline>    requireaccount=\"yes\"\<newline>    parent=\"main\">\<newline><connect\<newline>    deny=\"404: Not Found\"\<newline>    registered=\"true\"\<newline>    reason=\"You need to identify via SASL to use this server.\">\<newline>'')"
  using non_ok_status_continues
    [of "example_world error_response" default_args error_response "''u''"]
  by (simp add: iter_lines_error render_join allow_block_def deny_block_def class_name_def
      entry_line_def header_line_def)
     (simp add: example_world_def default_args_def error_response_def)

subsection \<open>The block name\<close>











subsection \<open>What each block depends on\<close>

text \<open>
  C10. Changing only the message leaves the allow-block as it is, and changing only the
  parent leaves the deny-block as it is, for the same list and the same identifier.
\<close>

theorem blocks_independent:
  "fst (render (a\<lparr>message := m\<rparr>) u ips) = fst (render a u ips) \<and>
   snd (render (a\<lparr>parent := p\<rparr>) u ips) = snd (render a u ips)"
  by (simp add: render_join allow_block_def deny_block_def)

subsection \<open>Lines of the body and lines of the blocks\<close>

lemma splitlines_from_Cons:
  "splitlines_from cur (c # s) =
     (if c = LF then cur # splitlines_from [] s
      else if c = CR then
        cur # splitlines_from [] (case s of [] \<Rightarrow> [] | d # ds \<Rightarrow> if d = LF then ds else s)
      else splitlines_from (cur @ [c]) s)"
  by (cases s) auto

lemma splitlines_from_line:
  "no_eol l \<Longrightarrow> splitlines_from cur (l @ LF # rest) = (cur @ l) # splitlines_from [] rest"
proof (induction l arbitrary: cur)
  case Nil
  show ?case by (simp add: splitlines_from_Cons)
next
  case (Cons c l)
  then have "c \<noteq> LF" "c \<noteq> CR" "no_eol l" by (auto simp: no_eol_def)
  with Cons.IH [of "cur @ [c]"] show ?case by (simp add: splitlines_from_Cons)
qed

lemma splitlines_from_last:
  "no_eol l \<Longrightarrow> splitlines_from cur l = (if cur @ l = [] then [] else [cur @ l])"
proof (induction l arbitrary: cur)
  case Nil
  show ?case by simp
next
  case (Cons c l)
  then have "c \<noteq> LF" "c \<noteq> CR" "no_eol l" by (auto simp: no_eol_def)
  with Cons.IH [of "cur @ [c]"] show ?case by (simp add: splitlines_from_Cons)
qed

lemma splitlines_from_no_eol:
  "no_eol cur \<Longrightarrow> l \<in> set (splitlines_from cur s) \<Longrightarrow> no_eol l"
proof (induction cur s rule: splitlines_from.induct)
  case (1 cur)
  then show ?case by (auto split: if_splits)
next
  case (2 cur c)
  then show ?case by (auto simp: no_eol_def split: if_splits)
next
  case (3 cur c d cs)
  then show ?case by (auto simp: no_eol_def split: if_splits)
qed

lemma iter_lines_no_eol: "ip \<in> set (iter_lines res) \<Longrightarrow> no_eol ip"
  unfolding iter_lines_def splitlines_def
  using splitlines_from_no_eol [of "[]"] by (simp add: no_eol_def)

lemma splitlines_line: "no_eol l \<Longrightarrow> splitlines (l @ LF # rest) = l # splitlines rest"
  by (simp add: splitlines_def splitlines_from_line)

lemma splitlines_last: "no_eol l \<Longrightarrow> l \<noteq> [] \<Longrightarrow> splitlines l = [l]"
  by (simp add: splitlines_def splitlines_from_last)

lemma splitlines_terminated:
  "\<forall>l \<in> set ls. no_eol l \<Longrightarrow> splitlines (concat (map (\<lambda>l. l @ [LF]) ls)) = ls"
  by (induction ls) (simp_all add: splitlines_line, simp add: splitlines_def)

lemma splitlines_join:
  "\<forall>l \<in> set ls. no_eol l \<Longrightarrow> ls \<noteq> [] \<Longrightarrow>
   splitlines (join [LF] ls @ LF # rest) = ls @ splitlines rest"
proof (induction "[LF]" ls rule: join.induct)
  case 1
  then show ?case by simp
next
  case (2 x)
  then show ?case by (simp add: splitlines_line)
next
  case (3 x y ys)
  then show ?case by (simp add: splitlines_line)
qed

lemma no_eol_append [simp]: "no_eol (xs @ ys) = (no_eol xs \<and> no_eol ys)"
  by (auto simp: no_eol_def)

lemma no_eol_entry_line: "no_eol kw \<Longrightarrow> no_eol ip \<Longrightarrow> no_eol (entry_line kw ip)"
  by (simp add: entry_line_def) (simp add: no_eol_def)

lemma no_eol_kw: "no_eol ''allow''" "no_eol ''deny''"
  by (simp_all add: no_eol_def)

lemma entry_of_entry_line: "entry_of kw (entry_line kw ip) = Some ip"
  by (simp add: entry_of_def entry_line_def Let_def butlast_append)

lemma map_filter_entry_lines:
  "List.map_filter (entry_of kw) (map (entry_line kw) ips) = ips"
  by (induction ips) (simp_all add: map_filter_simps entry_of_entry_line)

lemma splitlines_block:
  assumes "no_eol h" and "\<forall>ip \<in> set ips. no_eol ip" and "ips \<noteq> []" and "no_eol kw"
  shows "splitlines (h @ [LF] @ join [LF] (map (entry_line kw) ips) @ [LF] @ foot) =
           h # map (entry_line kw) ips @ splitlines foot"
proof -
  have e: "\<forall>l \<in> set (map (entry_line kw) ips). no_eol l"
    using assms(2,4) by (simp add: no_eol_entry_line)
  have ne: "map (entry_line kw) ips \<noteq> []"
    using assms(3) by simp
  have "splitlines (h @ [LF] @ join [LF] (map (entry_line kw) ips) @ [LF] @ foot) =
          splitlines (h @ LF # (join [LF] (map (entry_line kw) ips) @ LF # foot))"
    by simp
  also have "\<dots> = h # splitlines (join [LF] (map (entry_line kw) ips) @ LF # foot)"
    by (rule splitlines_line [OF assms(1)])
  also have "splitlines (join [LF] (map (entry_line kw) ips) @ LF # foot) =
               map (entry_line kw) ips @ splitlines foot"
    by (rule splitlines_join [OF e ne])
  finally show ?thesis .
qed

lemma splitlines_allow_block:
  assumes "no_eol u" and "\<forall>ip \<in> set ips. no_eol ip" and "ips \<noteq> []"
  shows "splitlines (fst (render a u ips)) =
           (''<connect name=\"auth-gate-'' @ u @ ''\"'') # map (entry_line ''allow'') ips @
           splitlines (''    registered=\"true\"'' @ [LF] @ ''    requireaccount=\"yes\"'' @ [LF] @
                       ''    parent=\"'' @ parent a @ ''\">'')"
proof -
  have h: "no_eol (''<connect name=\"auth-gate-'' @ u @ ''\"'')"
    using assms(1) by (simp add: no_eol_def)
  have "fst (render a u ips) =
          (''<connect name=\"auth-gate-'' @ u @ ''\"'') @ [LF] @
          join [LF] (map (entry_line ''allow'') ips) @ [LF] @
          (''    registered=\"true\"'' @ [LF] @ ''    requireaccount=\"yes\"'' @ [LF] @
            ''    parent=\"'' @ parent a @ ''\">'')"
    by (simp add: render_join allow_block_def class_name_def)
  then show ?thesis
    by (simp only: splitlines_block [OF h assms(2,3) no_eol_kw(1)])
qed

lemma splitlines_deny_block:
  assumes "\<forall>ip \<in> set ips. no_eol ip" and "ips \<noteq> []"
  shows "splitlines (snd (render a u ips)) =
           ''<connect'' # map (entry_line ''deny'') ips @
           splitlines (''    registered=\"true\"'' @ [LF] @ ''    reason=\"'' @ message a @ ''\">'')"
proof -
  have h: "no_eol ''<connect''"
    by (simp add: no_eol_def)
  have "snd (render a u ips) =
          ''<connect'' @ [LF] @ join [LF] (map (entry_line ''deny'') ips) @ [LF] @
          (''    registered=\"true\"'' @ [LF] @ ''    reason=\"'' @ message a @ ''\">'')"
    by (simp add: render_join deny_block_def)
  then show ?thesis
    by (simp only: splitlines_block [OF h assms(1,2) no_eol_kw(2)])
qed

lemma splitlines_two:
  "no_eol l1 \<Longrightarrow> no_eol l2 \<Longrightarrow> l2 \<noteq> [] \<Longrightarrow> splitlines (l1 @ [LF] @ l2) = [l1, l2]"
  by (simp add: splitlines_line splitlines_last)

lemma splitlines_three:
  "no_eol l1 \<Longrightarrow> no_eol l2 \<Longrightarrow> no_eol l3 \<Longrightarrow> l3 \<noteq> [] \<Longrightarrow>
   splitlines (l1 @ [LF] @ l2 @ [LF] @ l3) = [l1, l2, l3]"
  by (simp add: splitlines_line splitlines_last)

lemma allow_footer_lines:
  assumes "no_eol p"
  shows "splitlines (''    registered=\"true\"'' @ [LF] @ ''    requireaccount=\"yes\"'' @ [LF] @
               ''    parent=\"'' @ p @ ''\">'') =
     [''    registered=\"true\"'', ''    requireaccount=\"yes\"'', ''    parent=\"'' @ p @ ''\">'']"
  using assms
    splitlines_three [of "''    registered=\"true\"''" "''    requireaccount=\"yes\"''"
      "''    parent=\"'' @ p @ ''\">''"]
  by (simp add: no_eol_def)

lemma deny_footer_lines:
  assumes "no_eol m"
  shows "splitlines (''    registered=\"true\"'' @ [LF] @ ''    reason=\"'' @ m @ ''\">'') =
     [''    registered=\"true\"'', ''    reason=\"'' @ m @ ''\">'']"
  using assms
    splitlines_two [of "''    registered=\"true\"''" "''    reason=\"'' @ m @ ''\">''"]
  by (simp add: no_eol_def)

lemma map_filter_append:
  "List.map_filter f (xs @ ys) = List.map_filter f xs @ List.map_filter f ys"
  by (simp add: List.map_filter_def)

lemma entries_of_allow_block:
  assumes "no_eol u" and "no_eol (parent a)" and "\<forall>ip \<in> set ips. no_eol ip"
  shows "entries_of ''allow'' (fst (render a u ips)) = ips"
proof (cases "ips = []")
  case True
  have h: "no_eol (''<connect name=\"auth-gate-'' @ u @ ''\"'')"
    using assms(1) by (simp add: no_eol_def)
  have "fst (render a u []) =
          (''<connect name=\"auth-gate-'' @ u @ ''\"'') @ LF # ([] @ LF #
          (''    registered=\"true\"'' @ [LF] @ ''    requireaccount=\"yes\"'' @ [LF] @
            ''    parent=\"'' @ parent a @ ''\">''))"
    by (simp add: render_join allow_block_def class_name_def)
  then have "splitlines (fst (render a u [])) =
          [''<connect name=\"auth-gate-'' @ u @ ''\"'', [],
           ''    registered=\"true\"'', ''    requireaccount=\"yes\"'',
           ''    parent=\"'' @ parent a @ ''\">'']"
    using splitlines_line [OF h] splitlines_line [of "[]"] allow_footer_lines [OF assms(2)]
    by (simp add: no_eol_def)
  then show ?thesis
    using True by (simp add: entries_of_def entry_of_def Let_def)
next
  case False
  have "splitlines (fst (render a u ips)) =
          (''<connect name=\"auth-gate-'' @ u @ ''\"'') # map (entry_line ''allow'') ips @
          [''    registered=\"true\"'', ''    requireaccount=\"yes\"'',
           ''    parent=\"'' @ parent a @ ''\">'']"
    unfolding splitlines_allow_block [OF assms(1,3) False] allow_footer_lines [OF assms(2)]
    by (rule refl)
  then show ?thesis
    by (simp add: entries_of_def map_filter_simps map_filter_append
        map_filter_entry_lines entry_of_def Let_def)
qed

lemma entries_of_deny_block:
  assumes "no_eol (message a)" and "\<forall>ip \<in> set ips. no_eol ip"
  shows "entries_of ''deny'' (snd (render a u ips)) = ips"
proof (cases "ips = []")
  case True
  have h: "no_eol ''<connect''"
    by (simp add: no_eol_def)
  have "snd (render a u []) =
          ''<connect'' @ LF # ([] @ LF #
          (''    registered=\"true\"'' @ [LF] @ ''    reason=\"'' @ message a @ ''\">''))"
    by (simp add: render_join deny_block_def)
  then have "splitlines (snd (render a u [])) =
          [''<connect'', [], ''    registered=\"true\"'', ''    reason=\"'' @ message a @ ''\">'']"
    using splitlines_line [OF h] splitlines_line [of "[]"] deny_footer_lines [OF assms(1)]
    by (simp add: no_eol_def)
  then show ?thesis
    using True by (simp add: entries_of_def entry_of_def Let_def)
next
  case False
  have "splitlines (snd (render a u ips)) =
          ''<connect'' # map (entry_line ''deny'') ips @
          [''    registered=\"true\"'', ''    reason=\"'' @ message a @ ''\">'']"
    unfolding splitlines_deny_block [OF assms(2) False] deny_footer_lines [OF assms(1)]
    by (rule refl)
  then show ?thesis
    by (simp add: entries_of_def map_filter_simps map_filter_append
        map_filter_entry_lines entry_of_def Let_def)
qed

text \<open>
  C3, as the spec states it, fails: the body of \<open>blank_line_response\<close> has two non-empty
  lines, yet the list has three strings, the empty line among them, and the allow-block
  has three entry lines.
\<close>

theorem ip_list_blank_line_counterexample:
  "length (non_empty_lines (res_text blank_line_response)) = 2 \<and>
   iter_lines blank_line_response = [''1.2.3.4/32'', [], ''5.6.7.8/24''] \<and>
   length (entries_of ''allow''
             (fst (render default_args ''u'' (iter_lines blank_line_response)))) = 3 \<and>
   length (entries_of ''deny''
             (snd (render default_args ''u'' (iter_lines blank_line_response)))) = 3"
proof -
  have 1: "no_eol ''u''" "no_eol (parent default_args)" "no_eol (message default_args)"
    by (simp_all add: no_eol_def default_args_def)
  have 2: "\<forall>ip \<in> set (iter_lines blank_line_response). no_eol ip"
    by (simp add: iter_lines_no_eol)
  have n: "length (non_empty_lines (res_text blank_line_response)) = 2"
    by (simp add: non_empty_lines_def splitlines_def blank_line_response_def)
  have l: "length (iter_lines blank_line_response) = 3"
    by (simp add: iter_lines_blank_line)
  have a: "length (entries_of ''allow''
             (fst (render default_args ''u'' (iter_lines blank_line_response)))) = 3"
    by (simp only: entries_of_allow_block [OF 1(1,2) 2] l)
  have d: "length (entries_of ''deny''
             (snd (render default_args ''u'' (iter_lines blank_line_response)))) = 3"
    by (simp only: entries_of_deny_block [OF 1(3) 2] l)
  from n iter_lines_blank_line a d show ?thesis
    by (intro conjI)
qed

text \<open>
  C3, amended. The list is what the line iterator yields for the body, every line of it,
  empty or not, in the body's order: a body made of the lines \<open>ls\<close>, each ended by a
  newline, gives exactly \<open>ls\<close>. When the identifier, the parent and the message are
  single lines, the entry lines of the allow-block quote exactly the strings of the list,
  in order, and so do those of the deny-block; each block has as many entry lines as the
  list has strings.
\<close>

theorem ip_list_every_line:
  assumes "no_eol u" and "no_eol (parent a)" and "no_eol (message a)"
  shows "entries_of ''allow'' (fst (render a u (iter_lines res))) = iter_lines res \<and>
         entries_of ''deny'' (snd (render a u (iter_lines res))) = iter_lines res \<and>
         ((\<forall>l \<in> set ls. no_eol l) \<longrightarrow>
            iter_lines (res\<lparr>res_text := concat (map (\<lambda>l. l @ [LF]) ls)\<rparr>) = ls)"
proof -
  have e: "\<forall>ip \<in> set (iter_lines res). no_eol ip"
    by (simp add: iter_lines_no_eol)
  have a: "entries_of ''allow'' (fst (render a u (iter_lines res))) = iter_lines res"
    by (rule entries_of_allow_block [OF assms(1,2) e])
  have d: "entries_of ''deny'' (snd (render a u (iter_lines res))) = iter_lines res"
    by (rule entries_of_deny_block [OF assms(3) e])
  have t: "(\<forall>l \<in> set ls. no_eol l) \<longrightarrow>
             iter_lines (res\<lparr>res_text := concat (map (\<lambda>l. l @ [LF]) ls)\<rparr>) = ls"
    by (simp add: iter_lines_def splitlines_terminated)
  from a d t show ?thesis
    by (intro conjI)
qed

theorem ip_list_every_line_witness:
  "no_eol ''u'' \<and> no_eol (parent default_args) \<and> no_eol (message default_args) \<and>
   no_eol ''10.0.0.0/8'' \<and> no_eol [] \<and>
   entries_of ''allow'' (fst (render default_args ''u'' (iter_lines blank_line_response))) =
     [''1.2.3.4/32'', [], ''5.6.7.8/24''] \<and>
   entries_of ''deny'' (snd (render default_args ''u'' (iter_lines blank_line_response))) =
     [''1.2.3.4/32'', [], ''5.6.7.8/24''] \<and>
   iter_lines (blank_line_response\<lparr>res_text := ''10.0.0.0/8\<newline>\<newline>''\<rparr>) =
     [''10.0.0.0/8'', []]"
  using ip_list_every_line
    [of "''u''" default_args blank_line_response "[''10.0.0.0/8'', []]"]
  by (simp add: iter_lines_blank_line) (simp add: no_eol_def default_args_def)



end
